theory Spec2Isabelle
  imports Main
begin

section \<open>The secret subcommands of the compose CLI (cli/cmd/secrets.go)\<close>

text \<open>
  The file binds four subcommands (create, inspect, list, delete) to handlers. Each
  handler constructs a client, makes one call on its secrets service and prints the
  result or returns the error. The embedding keeps the handlers as they are written and
  makes their effects explicit: the text on standard output and the sequence of calls
  made on the client library are fields of a state that every handler takes and returns.
  The cancellation context that the handlers pass along (\<open>cmd.Context()\<close>) has no
  influence on the control flow of this file and is left out.
\<close>

subsection \<open>Values\<close>

text \<open>A Go \<open>error\<close> value, identified with the text it carries.\<close>

datatype error = Error string

text \<open>
  What a handler does when it is run: it returns (\<open>nil\<close> is \<open>None\<close>), or the
  indexing \<open>args[0]\<close> panics on an empty argument list.
\<close>

datatype outcome = Return "error option" | Panic

text \<open>
  Modelled from the spec: the type \<open>secrets.Secret\<close> and its constructor
  \<open>secrets.NewSecret\<close> belong to the package api/secrets, which is not in
  cli/cmd/secrets.go. The spec gives a secret an identifier, a name, a username, a password and
  a description, the identifier being assigned by the service; the handlers read the
  fields \<open>ID\<close>, \<open>Name\<close> and \<open>Description\<close>.
\<close>

record Secret =
  ID :: string
  Name :: string
  Description :: string
  username :: string
  password :: string

definition NewSecret :: "string \<Rightarrow> string \<Rightarrow> string \<Rightarrow> string \<Rightarrow> Secret" where
  "NewSecret name user pass description =
     \<lparr>ID = '''', Name = name, Description = description, username = user, password = pass\<rparr>"

text \<open>
  The collaborator of the handlers: a client whose \<open>SecretsService\<close> has the four
  methods. A Go result \<open>(v, err)\<close> is a sum with the error on the left; the result of
  \<open>DeleteSecret\<close> is the error alone.
\<close>

record Service =
  CreateSecret :: "Secret \<Rightarrow> error + string"
  InspectSecret :: "string \<Rightarrow> error + Secret"
  ListSecrets :: "error + Secret list"
  DeleteSecret :: "string \<Rightarrow> bool \<Rightarrow> error option"

record Client =
  SecretsService :: Service

text \<open>
  What lies outside the file and is taken as given: \<open>New\<close> is the result of
  \<open>client.New(cmd.Context())\<close> in this invocation, \<open>ToJSON\<close> is the method
  \<open>Secret.ToJSON\<close> of api/secrets, and \<open>tabwriter\<close> is the formatter of Go's
  text/tabwriter: \<open>tabwriter minwidth tabwidth padding padchar flags text\<close> is the text
  that a \<open>tabwriter.Writer\<close> with these settings has sent to its output once \<open>text\<close>
  has been written to it and flushed.
\<close>

record env =
  New :: "error + Client"
  ToJSON :: "Secret \<Rightarrow> error + string"
  tabwriter :: "nat \<Rightarrow> nat \<Rightarrow> nat \<Rightarrow> char \<Rightarrow> nat \<Rightarrow> string \<Rightarrow> string"

text \<open>The calls that leave the file, in the order in which they are made.\<close>

datatype call =
  Call_New
  | Call_CreateSecret Secret
  | Call_InspectSecret string
  | Call_ListSecrets
  | Call_DeleteSecret string bool

record world =
  stdout :: string
  calls :: "call list"

definition record_call :: "call \<Rightarrow> world \<Rightarrow> world" where
  "record_call c w = w\<lparr>calls := calls w @ [c]\<rparr>"

text \<open>\<open>fmt.Println(s)\<close> on standard output.\<close>

definition Println :: "string \<Rightarrow> world \<Rightarrow> world" where
  "Println s w = w\<lparr>stdout := stdout w @ s @ [CHR 0x0A]\<rparr>"

subsection \<open>Command-line flags and argument validation\<close>

text \<open>
  The parsed flags of one invocation: for a flag that takes a string, the value given to
  it, if it was given; for a boolean flag, whether it was given. Only the names that a
  command declares are looked up.
\<close>

record FlagSet =
  string_flag :: "string \<Rightarrow> string option"
  bool_flag :: "string \<Rightarrow> bool"

text \<open>
  Modelled from the spec: \<open>StringVarP\<close> and \<open>BoolVar\<close> belong to the flag library
  used through cobra, which is not in cli/cmd/secrets.go. \<open>StringVarP(p, name, shorthand, value,
  usage)\<close> stores in \<open>*p\<close> the value given to the flag, and \<open>value\<close> when the flag is
  absent; \<open>BoolVar(p, name, value, usage)\<close> stores true when the flag is given (the spec's
  \<open>delete --recover\<close>), and \<open>value\<close> when it is absent. The pointer \<open>p\<close> to a field
  is the function that assigns the field.
\<close>

definition StringVarP ::
  "(string \<Rightarrow> 'o \<Rightarrow> 'o) \<Rightarrow> string \<Rightarrow> string \<Rightarrow> string \<Rightarrow> string \<Rightarrow> FlagSet \<Rightarrow> 'o \<Rightarrow> 'o" where
  "StringVarP p name shorthand val usage fs opts =
     p (case string_flag fs name of None \<Rightarrow> val | Some v \<Rightarrow> v) opts"

definition BoolVar ::
  "(bool \<Rightarrow> 'o \<Rightarrow> 'o) \<Rightarrow> string \<Rightarrow> bool \<Rightarrow> string \<Rightarrow> FlagSet \<Rightarrow> 'o \<Rightarrow> 'o" where
  "BoolVar p name val usage fs opts = p (if bool_flag fs name then True else val) opts"

text \<open>Decimal digits of a number, for the \<open>%d\<close> of an error text.\<close>

fun Itoa :: "nat \<Rightarrow> string" where
  "Itoa n =
     (if n < 10 then [char_of (48 + n)] else Itoa (n div 10) @ [char_of (48 + n mod 10)])"

text \<open>
  Modelled from the spec: \<open>cobra.ExactArgs\<close> and the way cobra runs a command are not in
  cli/cmd/secrets.go. \<open>ExactArgs n\<close> is the validator that accepts exactly \<open>n\<close> positional
  arguments; a command is run by validating its positional arguments with \<open>Args\<close> and,
  only when they are accepted, calling \<open>RunE\<close> ("argument-count mismatches are
  rejected before any remote call is attempted"). A command without \<open>Args\<close> takes any
  arguments (\<open>ArbitraryArgs\<close>). The text of the error is cobra's message; no property
  below depends on it.
\<close>

definition ExactArgs :: "nat \<Rightarrow> string list \<Rightarrow> error option" where
  "ExactArgs n args =
     (if length args \<noteq> n
      then Some (Error (''accepts '' @ Itoa n @ '' arg(s), received '' @ Itoa (length args)))
      else None)"

definition ArbitraryArgs :: "string list \<Rightarrow> error option" where
  "ArbitraryArgs args = None"

record Command =
  Use :: string
  Aliases :: "string list"
  Short :: string
  Args :: "string list \<Rightarrow> error option"
  RunE :: "FlagSet \<Rightarrow> string list \<Rightarrow> world \<Rightarrow> outcome \<times> world"

definition execute :: "Command \<Rightarrow> FlagSet \<Rightarrow> string list \<Rightarrow> world \<Rightarrow> outcome \<times> world" where
  "execute cmd fs args w =
     (case Args cmd args of
        Some err \<Rightarrow> (Return (Some err), w)
      | None \<Rightarrow> RunE cmd fs args w)"

text \<open>
  Modelled from the spec: the dispatch of a verb to a subcommand is done by cobra. A
  subcommand answers to its name, the first word of \<open>Use\<close>, and to its aliases
  (the spec's \<open>secret list\<close> / \<open>secret ls\<close>, \<open>secret delete NAME\<close> / \<open>rm\<close> /
  \<open>remove\<close>); the subcommands are tried in the order in which they were added.
\<close>

definition Name_of :: "Command \<Rightarrow> string" where
  "Name_of cmd = takeWhile (\<lambda>c. c \<noteq> CHR '' '') (Use cmd)"

fun findNext :: "Command list \<Rightarrow> string \<Rightarrow> Command option" where
  "findNext [] next = None"
| "findNext (cmd # cmds) next =
     (if Name_of cmd = next \<or> next \<in> set (Aliases cmd) then Some cmd else findNext cmds next)"

subsection \<open>create\<close>

record createSecretOptions =
  Label :: string
  Username :: string
  Password :: string
  Description :: string

text \<open>
  The options of one invocation of create: the zero value of the struct (line 56), then
  the three flags declared at lines 77 to 79, each with the empty string as its default.
\<close>

definition createSecret_opts :: "FlagSet \<Rightarrow> createSecretOptions" where
  "createSecret_opts fs =
     StringVarP (\<lambda>v opts. opts\<lparr>createSecretOptions.Description := v\<rparr>)
         ''description'' ''d'' '''' ''Secret description'' fs
       (StringVarP (\<lambda>v opts. opts\<lparr>Password := v\<rparr>) ''password'' ''p'' '''' ''password'' fs
         (StringVarP (\<lambda>v opts. opts\<lparr>Username := v\<rparr>) ''username'' ''u'' '''' ''username'' fs
           \<lparr>Label = '''', Username = '''', Password = '''',
            createSecretOptions.Description = ''''\<rparr>))"

definition createSecret_RunE ::
  "env \<Rightarrow> createSecretOptions \<Rightarrow> string list \<Rightarrow> world \<Rightarrow> outcome \<times> world" where
  "createSecret_RunE e opts args w =
     (let w = record_call Call_New w in
      case New e of
        Inl err \<Rightarrow> (Return (Some err), w)
      | Inr c \<Rightarrow>
          (case args of
             [] \<Rightarrow> (Panic, w)
           | name # _ \<Rightarrow>
               (let secret = NewSecret name (Username opts) (Password opts)
                               (createSecretOptions.Description opts);
                    w = record_call (Call_CreateSecret secret) w
                in case CreateSecret (SecretsService c) secret of
                     Inl err \<Rightarrow> (Return (Some err), w)
                   | Inr ident \<Rightarrow> (Return None, Println ident w))))"

definition createSecret :: "env \<Rightarrow> Command" where
  "createSecret e =
     \<lparr>Use = ''create NAME'', Aliases = [], Short = ''Creates a secret.'', Args = ExactArgs 1,
      RunE = (\<lambda>fs. createSecret_RunE e (createSecret_opts fs))\<rparr>"

subsection \<open>inspect\<close>

definition inspectSecret_RunE :: "env \<Rightarrow> string list \<Rightarrow> world \<Rightarrow> outcome \<times> world" where
  "inspectSecret_RunE e args w =
     (let w = record_call Call_New w in
      case New e of
        Inl err \<Rightarrow> (Return (Some err), w)
      | Inr c \<Rightarrow>
          (case args of
             [] \<Rightarrow> (Panic, w)
           | ident # _ \<Rightarrow>
               (let w = record_call (Call_InspectSecret ident) w
                in case InspectSecret (SecretsService c) ident of
                     Inl err \<Rightarrow> (Return (Some err), w)
                   | Inr secret \<Rightarrow>
                       (case ToJSON e secret of
                          Inl err \<Rightarrow> (Return (Some err), w)
                        | Inr out \<Rightarrow> (Return None, Println out w)))))"

definition inspectSecret :: "env \<Rightarrow> Command" where
  "inspectSecret e =
     \<lparr>Use = ''inspect ID'', Aliases = [], Short = ''Displays secret details'',
      Args = ExactArgs 1, RunE = (\<lambda>fs. inspectSecret_RunE e)\<rparr>"

subsection \<open>list\<close>

text \<open>
  A \<open>tabwriter.Writer\<close>: the text of its output so far, its five settings, and the text
  written to it that it still holds. \<open>Flush\<close> formats what is held and sends it on.
\<close>

record Writer =
  dst :: string
  minwidth :: nat
  tabwidth :: nat
  padding :: nat
  padchar :: char
  flags :: nat
  buf :: string

definition NewWriter :: "string \<Rightarrow> nat \<Rightarrow> nat \<Rightarrow> nat \<Rightarrow> char \<Rightarrow> nat \<Rightarrow> Writer" where
  "NewWriter out mw tw pd pc fl =
     \<lparr>dst = out, minwidth = mw, tabwidth = tw, padding = pd, padchar = pc, flags = fl,
      buf = ''''\<rparr>"

definition Write :: "Writer \<Rightarrow> string \<Rightarrow> Writer" where
  "Write w s = w\<lparr>buf := buf w @ s\<rparr>"

definition Flush :: "env \<Rightarrow> Writer \<Rightarrow> string" where
  "Flush e w =
     dst w @ tabwriter e (minwidth w) (tabwidth w) (padding w) (padchar w) (flags w) (buf w)"

text \<open>\<open>strings.Join(elems, sep)\<close>.\<close>

fun Join :: "string list \<Rightarrow> string \<Rightarrow> string" where
  "Join [] sep = []"
| "Join [x] sep = x"
| "Join (x # y # ys) sep = x @ sep @ Join (y # ys) sep"

text \<open>\<open>fmt.Fprintln(w, s)\<close> on a tabwriter.\<close>

definition Fprintln :: "Writer \<Rightarrow> string \<Rightarrow> Writer" where
  "Fprintln w s = Write w (s @ [CHR 0x0A])"

text \<open>
  \<open>fmt.Fprintf(w, "%s\t%s\t%s\n", a, b, c)\<close> on a tabwriter: the three strings, each
  followed by what the format puts after its \<open>%s\<close>, in one write.
\<close>

definition Fprintf :: "Writer \<Rightarrow> string \<Rightarrow> string \<Rightarrow> string \<Rightarrow> Writer" where
  "Fprintf w a b c = Write w (a @ [CHR 0x09] @ b @ [CHR 0x09] @ c @ [CHR 0x0A])"

definition printSection :: "env \<Rightarrow> string \<Rightarrow> (Writer \<Rightarrow> Writer) \<Rightarrow> string list \<Rightarrow> string" where
  "printSection e out printer headers =
     (let w = NewWriter out 20 1 3 CHR '' '' 0;
          w = Fprintln w (Join headers [CHR 0x09]);
          w = printer w
      in Flush e w)"

definition printList :: "env \<Rightarrow> string \<Rightarrow> Secret list \<Rightarrow> string" where
  "printList e out secrets =
     printSection e out
       (\<lambda>w. fold (\<lambda>secret w. Fprintf w (ID secret) (Name secret) (Secret.Description secret))
               secrets w)
       [''ID'', ''NAME'', ''DESCRIPTION'']"

definition listSecrets_RunE :: "env \<Rightarrow> string list \<Rightarrow> world \<Rightarrow> outcome \<times> world" where
  "listSecrets_RunE e args w =
     (let w = record_call Call_New w in
      case New e of
        Inl err \<Rightarrow> (Return (Some err), w)
      | Inr c \<Rightarrow>
          (let w = record_call Call_ListSecrets w
           in case ListSecrets (SecretsService c) of
                Inl err \<Rightarrow> (Return (Some err), w)
              | Inr secrets \<Rightarrow> (Return None, w\<lparr>stdout := printList e (stdout w) secrets\<rparr>)))"

definition listSecrets :: "env \<Rightarrow> Command" where
  "listSecrets e =
     \<lparr>Use = ''list'', Aliases = [''ls''],
      Short = ''List secrets stored for the existing account.'', Args = ArbitraryArgs,
      RunE = (\<lambda>fs. listSecrets_RunE e)\<rparr>"

subsection \<open>delete\<close>

record deleteSecretOptions =
  recover :: bool

definition deleteSecret_opts :: "FlagSet \<Rightarrow> deleteSecretOptions" where
  "deleteSecret_opts fs =
     BoolVar (\<lambda>v opts. opts\<lparr>recover := v\<rparr>) ''recover'' False ''Enable recovery.'' fs
       \<lparr>recover = False\<rparr>"

definition deleteSecret_RunE ::
  "env \<Rightarrow> deleteSecretOptions \<Rightarrow> string list \<Rightarrow> world \<Rightarrow> outcome \<times> world" where
  "deleteSecret_RunE e opts args w =
     (let w = record_call Call_New w in
      case New e of
        Inl err \<Rightarrow> (Return (Some err), w)
      | Inr c \<Rightarrow>
          (case args of
             [] \<Rightarrow> (Panic, w)
           | name # _ \<Rightarrow>
               (let w = record_call (Call_DeleteSecret name (recover opts)) w
                in (Return (DeleteSecret (SecretsService c) name (recover opts)), w))))"

definition deleteSecret :: "env \<Rightarrow> Command" where
  "deleteSecret e =
     \<lparr>Use = ''delete NAME'', Aliases = [''rm'', ''remove''], Short = ''Removes a secret.'',
      Args = ExactArgs 1, RunE = (\<lambda>fs. deleteSecret_RunE e (deleteSecret_opts fs))\<rparr>"

subsection \<open>The secret command\<close>

text \<open>The subcommands of \<open>secret\<close>, in the order of \<open>AddCommand\<close>.\<close>

definition SecretCommand :: "env \<Rightarrow> Command list" where
  "SecretCommand e = [createSecret e, inspectSecret e, listSecrets e, deleteSecret e]"

text \<open>
  One invocation \<open>secret VERB ...\<close>: the subcommand that answers to the verb is run on
  the parsed flags and the positional arguments; \<open>None\<close> when no subcommand answers.
\<close>

definition Execute ::
  "env \<Rightarrow> string \<Rightarrow> FlagSet \<Rightarrow> string list \<Rightarrow> world \<Rightarrow> (outcome \<times> world) option" where
  "Execute e verb fs args w =
     (case findNext (SecretCommand e) verb of
        None \<Rightarrow> None
      | Some cmd \<Rightarrow> Some (execute cmd fs args w))"

subsection \<open>What is observed of an invocation\<close>

text \<open>
  The caller of a handler sees what it returned and the text on standard output.
\<close>

definition observable :: "outcome \<times> world \<Rightarrow> outcome \<times> string" where
  "observable r = (fst r, stdout (snd r))"

text \<open>
  Two environments give the same results to a handler that makes the service call
  \<open>request\<close>: client construction fails with the same error in both, or it succeeds in
  both and the call returns the same result on either client. Nothing is asked of the
  other methods, nor of the same method at other arguments.
\<close>

definition same_results :: "env \<Rightarrow> env \<Rightarrow> (Service \<Rightarrow> 'r) \<Rightarrow> bool" where
  "same_results e1 e2 request =
     (case New e1 of
        Inl err1 \<Rightarrow> New e2 = Inl err1
      | Inr c1 \<Rightarrow>
          (case New e2 of
             Inl err2 \<Rightarrow> False
           | Inr c2 \<Rightarrow> request (SecretsService c1) = request (SecretsService c2)))"

subsection \<open>Sample services and invocations\<close>

text \<open>
  Concrete collaborators on which the theorems below are instantiated: a service that
  answers every call, one that refuses every call, and one that knows a single secret.
  The sample tabwriter passes its text through unchanged, so that the text written to
  the tabwriter can be read off standard output.
\<close>

definition sample_service :: Service where
  "sample_service =
     \<lparr>CreateSecret = (\<lambda>secret. Inr (''id-'' @ Name secret)),
      InspectSecret = (\<lambda>ident. Inr (NewSecret ident ''bob'' ''pw'' ''a key'')),
      ListSecrets =
        Inr [\<lparr>ID = ''2'', Name = ''db'', Secret.Description = ''database'', username = '''',
              password = ''''\<rparr>,
             \<lparr>ID = ''1'', Name = ''api'', Secret.Description = '''', username = '''',
              password = ''''\<rparr>],
      DeleteSecret = (\<lambda>name rec. None)\<rparr>"

definition failing_service :: Service where
  "failing_service =
     \<lparr>CreateSecret = (\<lambda>secret. Inl (Error ''denied'')),
      InspectSecret = (\<lambda>ident. Inl (Error ''denied'')),
      ListSecrets = Inl (Error ''denied''),
      DeleteSecret = (\<lambda>name rec. Some (Error ''denied''))\<rparr>"

definition single_service :: Service where
  "single_service =
     sample_service
       \<lparr>InspectSecret :=
          (\<lambda>ident. if ident = ''db'' then Inr (NewSecret ident ''bob'' ''pw'' ''a key'')
                    else Inl (Error ''not found'')),
        DeleteSecret :=
          (\<lambda>name rec. if name = ''db'' then None else Some (Error ''not found''))\<rparr>"

definition sample_env :: "Service \<Rightarrow> env" where
  "sample_env s =
     \<lparr>New = Inr \<lparr>SecretsService = s\<rparr>,
      ToJSON = (\<lambda>secret. Inr (''{'' @ Name secret @ ''}'')),
      tabwriter = (\<lambda>mw tw pd pc fl text. text)\<rparr>"

definition no_flags :: FlagSet where
  "no_flags = \<lparr>string_flag = (\<lambda>name. None), bool_flag = (\<lambda>name. False)\<rparr>"

definition empty_world :: world where
  "empty_world = \<lparr>stdout = '''', calls = []\<rparr>"

section \<open>Properties\<close>

subsection \<open>Auxiliary facts\<close>

text \<open>The printer of \<open>printList\<close> appends one formatted line per secret, in order.\<close>

lemma fold_Fprintf:
  "fold (\<lambda>secret w. Fprintf w (ID secret) (Name secret) (Secret.Description secret)) secrets w =
     w\<lparr>buf := buf w @
        concat (map (\<lambda>s. ID s @ [CHR 0x09] @ Name s @ [CHR 0x09] @ Secret.Description s @ [CHR 0x0A])
          secrets)\<rparr>"
  by (induction secrets arbitrary: w) (simp_all add: Fprintf_def Write_def)

lemma printList_text:
  "printList e out secrets =
     out @ tabwriter e 20 1 3 CHR '' '' 0
       (''ID'' @ [CHR 0x09] @ ''NAME'' @ [CHR 0x09] @ ''DESCRIPTION'' @ [CHR 0x0A] @
        concat (map (\<lambda>s. ID s @ [CHR 0x09] @ Name s @ [CHR 0x09] @ Secret.Description s @ [CHR 0x0A])
          secrets))"
  by (simp add: printList_def printSection_def fold_Fprintf NewWriter_def Fprintln_def
      Write_def Flush_def)

text \<open>The verbs that reach each subcommand.\<close>

lemma Execute_verbs:
  "Execute e ''create'' fs args w = Some (execute (createSecret e) fs args w)"
  "Execute e ''inspect'' fs args w = Some (execute (inspectSecret e) fs args w)"
  "Execute e ''list'' fs args w = Some (execute (listSecrets e) fs args w)"
  "Execute e ''ls'' fs args w = Some (execute (listSecrets e) fs args w)"
  "Execute e ''delete'' fs args w = Some (execute (deleteSecret e) fs args w)"
  "Execute e ''rm'' fs args w = Some (execute (deleteSecret e) fs args w)"
  "Execute e ''remove'' fs args w = Some (execute (deleteSecret e) fs args w)"
  by (simp_all add: Execute_def SecretCommand_def Name_of_def createSecret_def
      inspectSecret_def listSecrets_def deleteSecret_def)

text \<open>Running a subcommand: the argument check, then the handler.\<close>

lemma execute_createSecret:
  "execute (createSecret e) fs args w =
     (if length args \<noteq> 1 then (Return (ExactArgs 1 args), w)
      else createSecret_RunE e (createSecret_opts fs) args w)"
  by (simp add: execute_def createSecret_def ExactArgs_def)

lemma execute_inspectSecret:
  "execute (inspectSecret e) fs args w =
     (if length args \<noteq> 1 then (Return (ExactArgs 1 args), w)
      else inspectSecret_RunE e args w)"
  by (simp add: execute_def inspectSecret_def ExactArgs_def)

lemma execute_listSecrets:
  "execute (listSecrets e) fs args w = listSecrets_RunE e args w"
  by (simp add: execute_def listSecrets_def ArbitraryArgs_def)

lemma execute_deleteSecret:
  "execute (deleteSecret e) fs args w =
     (if length args \<noteq> 1 then (Return (ExactArgs 1 args), w)
      else deleteSecret_RunE e (deleteSecret_opts fs) args w)"
  by (simp add: execute_def deleteSecret_def ExactArgs_def)

text \<open>The options after the flags have been bound.\<close>

lemma createSecret_opts_eq:
  "createSecret_opts fs =
     \<lparr>Label = '''',
      Username = (case string_flag fs ''username'' of None \<Rightarrow> '''' | Some v \<Rightarrow> v),
      Password = (case string_flag fs ''password'' of None \<Rightarrow> '''' | Some v \<Rightarrow> v),
      createSecretOptions.Description =
        (case string_flag fs ''description'' of None \<Rightarrow> '''' | Some v \<Rightarrow> v)\<rparr>"
  by (simp add: createSecret_opts_def StringVarP_def)

lemma deleteSecret_opts_eq: "recover (deleteSecret_opts fs) = bool_flag fs ''recover''"
  by (simp add: deleteSecret_opts_def BoolVar_def)

text \<open>
  The indexing \<open>args[0]\<close> of the three handlers is guarded by the argument check: no
  invocation panics.
\<close>

lemma execute_no_Panic:
  "fst (execute (createSecret e) fs args w) \<noteq> Panic"
  "fst (execute (inspectSecret e) fs args w) \<noteq> Panic"
  "fst (execute (listSecrets e) fs args w) \<noteq> Panic"
  "fst (execute (deleteSecret e) fs args w) \<noteq> Panic"
  by (cases args;
      simp add: execute_createSecret execute_inspectSecret execute_listSecrets
        execute_deleteSecret createSecret_RunE_def inspectSecret_RunE_def listSecrets_RunE_def
        deleteSecret_RunE_def Let_def split: sum.splits)+


subsection \<open>C1: create issues one request built from the argument and the flags\<close>

text \<open>
  Claim C1, as amended. For every invocation of create with one name argument and any
  values of the username, password and description flags, in which client construction
  succeeds: the handler issues exactly one CreateSecret request, after constructing the
  client; the secret of the request is built from the name argument and from the three
  flag values, the empty string standing for an absent flag; and when the service
  returns an identifier, the handler prints the identifier followed by a newline and
  returns no error.
\<close>

theorem createSecret_one_request:
  assumes "New e = Inr c"
  shows "\<exists>secret out w'.
     secret = NewSecret name
        (case string_flag fs ''username'' of None \<Rightarrow> '''' | Some v \<Rightarrow> v)
        (case string_flag fs ''password'' of None \<Rightarrow> '''' | Some v \<Rightarrow> v)
        (case string_flag fs ''description'' of None \<Rightarrow> '''' | Some v \<Rightarrow> v) \<and>
     execute (createSecret e) fs [name] w = (out, w') \<and>
     calls w' = calls w @ [Call_New, Call_CreateSecret secret] \<and>
     (\<forall>ident. CreateSecret (SecretsService c) secret = Inr ident \<longrightarrow>
        out = Return None \<and> stdout w' = stdout w @ ident @ [CHR 0x0A])"
  using assms
  by (auto simp add: execute_createSecret createSecret_RunE_def
      createSecret_opts_eq record_call_def Println_def Let_def split: sum.splits)

text \<open>
  An instance: \<open>secret create db -u bob\<close> against the sample service sends one request for
  the secret (db, bob, "", "") and prints the identifier \<open>id-db\<close>.
\<close>

theorem createSecret_one_request_witness:
  "New (sample_env sample_service) = Inr \<lparr>SecretsService = sample_service\<rparr> \<and>
   execute (createSecret (sample_env sample_service))
     (no_flags\<lparr>string_flag := (\<lambda>name. if name = ''username'' then Some ''bob'' else None)\<rparr>)
     [''db''] empty_world =
   (Return None,
    \<lparr>stdout = ''id-db'' @ [CHR 0x0A],
     calls = [Call_New, Call_CreateSecret (NewSecret ''db'' ''bob'' '''' '''')]\<rparr>)"
proof -
  have h: "New (sample_env sample_service) = Inr \<lparr>SecretsService = sample_service\<rparr>"
    by (simp add: sample_env_def)
  show ?thesis
    using h createSecret_one_request [OF h, of "''db''"
        "no_flags\<lparr>string_flag := (\<lambda>name. if name = ''username'' then Some ''bob'' else None)\<rparr>"
        empty_world]
    by (auto simp add: sample_service_def no_flags_def empty_world_def NewSecret_def)
qed

text \<open>
  Claim C1 as stated fails where client construction fails: the handler returns at
  line 64, and the only call of the invocation \<open>secret create db\<close> is the construction
  of the client. No CreateSecret request is issued, where the claim has exactly one.
\<close>

theorem createSecret_no_request_counterexample:
  "calls (snd (execute
      (createSecret
         \<lparr>New = Inl (Error ''no context''), ToJSON = (\<lambda>secret. Inr (Name secret)),
          tabwriter = (\<lambda>mw tw pd pc fl text. text)\<rparr>)
      no_flags [''db''] empty_world)) = [Call_New]"
  by (simp add: execute_createSecret createSecret_RunE_def record_call_def empty_world_def)

subsection \<open>C2: list writes one row per secret, in the order received\<close>

text \<open>
  Claim C2. For every list of secrets returned by ListSecrets, the list subcommand
  writes, after the header, exactly one row per secret, in the order of the returned
  list and without sorting; a row is the ID, the Name and the Description of the secret,
  in this order, each followed by a tab or, for the last, by a newline. The text goes to
  standard output through the tabwriter with the settings 20, 1, 3, space, 0.
\<close>

theorem listSecrets_rows_in_order:
  assumes "New e = Inr c" and "ListSecrets (SecretsService c) = Inr secrets"
  shows "execute (listSecrets e) fs args w =
     (Return None,
      w\<lparr>calls := calls w @ [Call_New, Call_ListSecrets],
        stdout := stdout w @ tabwriter e 20 1 3 CHR '' '' 0
          (''ID'' @ [CHR 0x09] @ ''NAME'' @ [CHR 0x09] @ ''DESCRIPTION'' @ [CHR 0x0A] @
           concat (map (\<lambda>s. ID s @ [CHR 0x09] @ Name s @ [CHR 0x09] @
                             Secret.Description s @ [CHR 0x0A]) secrets))\<rparr>)"
  using assms
  by (simp add: execute_listSecrets listSecrets_RunE_def record_call_def printList_text)

text \<open>
  An instance: the sample service returns the secrets 2 and 1 in this order, and the rows
  are written in this order.
\<close>

theorem listSecrets_rows_in_order_witness:
  "New (sample_env sample_service) = Inr \<lparr>SecretsService = sample_service\<rparr> \<and>
   ListSecrets sample_service =
     Inr [\<lparr>ID = ''2'', Name = ''db'', Secret.Description = ''database'', username = '''',
           password = ''''\<rparr>,
          \<lparr>ID = ''1'', Name = ''api'', Secret.Description = '''', username = '''',
           password = ''''\<rparr>] \<and>
   execute (listSecrets (sample_env sample_service)) no_flags [] empty_world =
     (Return None,
      \<lparr>stdout = ''ID'' @ [CHR 0x09] @ ''NAME'' @ [CHR 0x09] @ ''DESCRIPTION'' @ [CHR 0x0A] @
                ''2'' @ [CHR 0x09] @ ''db'' @ [CHR 0x09] @ ''database'' @ [CHR 0x0A] @
                ''1'' @ [CHR 0x09] @ ''api'' @ [CHR 0x09] @ '''' @ [CHR 0x0A],
       calls = [Call_New, Call_ListSecrets]\<rparr>)"
proof -
  have h1: "New (sample_env sample_service) = Inr \<lparr>SecretsService = sample_service\<rparr>"
    by (simp add: sample_env_def)
  have h2: "ListSecrets (SecretsService \<lparr>SecretsService = sample_service\<rparr>) =
     Inr [\<lparr>ID = ''2'', Name = ''db'', Secret.Description = ''database'', username = '''',
           password = ''''\<rparr>,
          \<lparr>ID = ''1'', Name = ''api'', Secret.Description = '''', username = '''',
           password = ''''\<rparr>]"
    by (simp add: sample_service_def)
  show ?thesis
    using h1 h2 listSecrets_rows_in_order [OF h1 h2, of no_flags "[]" empty_world]
    by (simp add: sample_env_def empty_world_def)
qed

subsection \<open>C3: delete passes the recover flag\<close>



subsection \<open>C4: an error of the service call leaves standard output untouched\<close>

text \<open>
  Claim C4. For every invocation of any of the four subcommands in which the service
  call (CreateSecret, InspectSecret, ListSecrets or DeleteSecret) returns an error, the
  handler returns that error and standard output is as it was before.
\<close>

theorem service_error_no_output:
  assumes "New e = Inr c"
  shows
    "(CreateSecret (SecretsService c)
        (NewSecret name (Username (createSecret_opts fs)) (Password (createSecret_opts fs))
           (createSecretOptions.Description (createSecret_opts fs))) = Inl err \<longrightarrow>
      observable (execute (createSecret e) fs [name] w) = (Return (Some err), stdout w)) \<and>
     (InspectSecret (SecretsService c) name = Inl err \<longrightarrow>
      observable (execute (inspectSecret e) fs [name] w) = (Return (Some err), stdout w)) \<and>
     (ListSecrets (SecretsService c) = Inl err \<longrightarrow>
      observable (execute (listSecrets e) fs args w) = (Return (Some err), stdout w)) \<and>
     (DeleteSecret (SecretsService c) name (recover (deleteSecret_opts fs)) = Some err \<longrightarrow>
      observable (execute (deleteSecret e) fs [name] w) = (Return (Some err), stdout w))"
  using assms
  by (simp add: observable_def execute_createSecret execute_inspectSecret execute_listSecrets
      execute_deleteSecret createSecret_RunE_def inspectSecret_RunE_def listSecrets_RunE_def
      deleteSecret_RunE_def record_call_def)

text \<open>
  An instance: against the service that refuses every call, each of the four subcommands
  returns the refusal and prints nothing.
\<close>

theorem service_error_no_output_witness:
  "New (sample_env failing_service) = Inr \<lparr>SecretsService = failing_service\<rparr> \<and>
   CreateSecret failing_service (NewSecret ''db'' '''' '''' '''') = Inl (Error ''denied'') \<and>
   InspectSecret failing_service ''db'' = Inl (Error ''denied'') \<and>
   ListSecrets failing_service = Inl (Error ''denied'') \<and>
   DeleteSecret failing_service ''db'' False = Some (Error ''denied'') \<and>
   observable (execute (createSecret (sample_env failing_service)) no_flags [''db''] empty_world) =
     (Return (Some (Error ''denied'')), '''') \<and>
   observable (execute (inspectSecret (sample_env failing_service)) no_flags [''db''] empty_world) =
     (Return (Some (Error ''denied'')), '''') \<and>
   observable (execute (listSecrets (sample_env failing_service)) no_flags [] empty_world) =
     (Return (Some (Error ''denied'')), '''') \<and>
   observable (execute (deleteSecret (sample_env failing_service)) no_flags [''db''] empty_world) =
     (Return (Some (Error ''denied'')), '''')"
proof -
  have h: "New (sample_env failing_service) = Inr \<lparr>SecretsService = failing_service\<rparr>"
    by (simp add: sample_env_def)
  show ?thesis
    using h service_error_no_output [OF h, of "''db''" no_flags "Error ''denied''" empty_world "[]"]
    by (simp add: failing_service_def createSecret_opts_eq deleteSecret_opts_eq no_flags_def
        empty_world_def)
qed

subsection \<open>C5: a wrong number of arguments is rejected before the client is constructed\<close>

text \<open>
  Claim C5. For every invocation of create, inspect or delete whose number of
  positional arguments is not one, the invocation returns an error and the state is
  unchanged: no client has been constructed and no call has been made.
\<close>

theorem arity_rejected_before_client:
  assumes "length args \<noteq> 1"
  shows "\<exists>err.
     execute (createSecret e) fs args w = (Return (Some err), w) \<and>
     execute (inspectSecret e) fs args w = (Return (Some err), w) \<and>
     execute (deleteSecret e) fs args w = (Return (Some err), w)"
  using assms
  by (simp add: execute_createSecret execute_inspectSecret execute_deleteSecret ExactArgs_def)

text \<open>Instances with two arguments and with none.\<close>

theorem arity_rejected_before_client_witness:
  "length [''a'', ''b''] \<noteq> 1 \<and>
   execute (createSecret (sample_env sample_service)) no_flags [''a'', ''b''] empty_world =
     (Return (Some (Error ''accepts 1 arg(s), received 2'')), empty_world) \<and>
   execute (inspectSecret (sample_env sample_service)) no_flags [] empty_world =
     (Return (Some (Error ''accepts 1 arg(s), received 0'')), empty_world) \<and>
   execute (deleteSecret (sample_env sample_service)) no_flags [''a'', ''b''] empty_world =
     (Return (Some (Error ''accepts 1 arg(s), received 2'')), empty_world)"
proof -
  have h1: "length [''a'', ''b''] \<noteq> 1" by simp
  have h2: "length ([] :: string list) \<noteq> 1" by simp
  have e2: "ExactArgs 1 [''a'', ''b''] = Some (Error ''accepts 1 arg(s), received 2'')"
    by code_simp
  have e0: "ExactArgs 1 [] = Some (Error ''accepts 1 arg(s), received 0'')"
    by code_simp
  show ?thesis
    using h1 e0 e2
      arity_rejected_before_client [OF h1, of "sample_env sample_service" no_flags empty_world]
      arity_rejected_before_client [OF h2, of "sample_env sample_service" no_flags empty_world]
    by (auto simp add: execute_def createSecret_def inspectSecret_def deleteSecret_def)
qed

subsection \<open>C6: where the errors of the handlers come from\<close>




subsection \<open>C7: the fields of createSecretOptions and the flags\<close>

text \<open>
  Claim C7, as amended. The struct createSecretOptions has exactly the four fields
  Label, Username, Password and Description. Before the create request is built,
  Username, Password and Description hold the values of the flags username, password
  and description, the empty string standing for an absent flag; Label is bound to no
  flag and holds the empty string.
\<close>

theorem createSecret_opts_fields:
  "createSecret_opts fs =
     \<lparr>Label = '''',
      Username = (case string_flag fs ''username'' of None \<Rightarrow> '''' | Some v \<Rightarrow> v),
      Password = (case string_flag fs ''password'' of None \<Rightarrow> '''' | Some v \<Rightarrow> v),
      createSecretOptions.Description =
        (case string_flag fs ''description'' of None \<Rightarrow> '''' | Some v \<Rightarrow> v)\<rparr> \<and>
   (copts :: createSecretOptions) =
     \<lparr>Label = Label copts, Username = Username copts, Password = Password copts,
      createSecretOptions.Description = createSecretOptions.Description copts\<rparr>"
  by (simp add: createSecret_opts_eq)

text \<open>
  Claim C7 as stated fails for the field Label: no flag is declared for it (lines 77 to
  79 bind the three other fields). On a command line that gives the value \<open>x\<close> to
  every flag, Label is still empty.
\<close>

theorem Label_not_populated_counterexample:
  "Label (createSecret_opts \<lparr>string_flag = (\<lambda>name. Some ''x''), bool_flag = (\<lambda>name. True)\<rparr>) = ''''"
  by (simp add: createSecret_opts_def StringVarP_def)

subsection \<open>C8: a successful delete prints nothing\<close>

text \<open>
  Claim C8. For every invocation of delete, under the name \<open>delete\<close> or under the aliases
  \<open>rm\<close> and \<open>remove\<close>, in which the DeleteSecret call succeeds, the handler returns no
  error and standard output is as it was before.
\<close>

theorem deleteSecret_success_silent:
  assumes "verb \<in> {''delete'', ''rm'', ''remove''}"
    and "New e = Inr c"
    and "DeleteSecret (SecretsService c) name (bool_flag fs ''recover'') = None"
  shows "\<exists>w'. Execute e verb fs [name] w = Some (Return None, w') \<and> stdout w' = stdout w"
  using assms
  by (auto simp add: Execute_verbs execute_deleteSecret deleteSecret_RunE_def
      deleteSecret_opts_eq record_call_def)

text \<open>An instance: \<open>secret rm db --recover\<close> against the sample service.\<close>

theorem deleteSecret_success_silent_witness:
  "''rm'' \<in> {''delete'', ''rm'', ''remove''} \<and>
   New (sample_env sample_service) = Inr \<lparr>SecretsService = sample_service\<rparr> \<and>
   DeleteSecret sample_service ''db'' True = None \<and>
   Execute (sample_env sample_service) ''rm''
     (no_flags\<lparr>bool_flag := (\<lambda>name. name = ''recover'')\<rparr>) [''db''] empty_world =
     Some (Return None, \<lparr>stdout = '''', calls = [Call_New, Call_DeleteSecret ''db'' True]\<rparr>)"
proof -
  have h1: "''rm'' \<in> {''delete'', ''rm'', ''remove''}" by simp
  have h2: "New (sample_env sample_service) = Inr \<lparr>SecretsService = sample_service\<rparr>"
    by (simp add: sample_env_def)
  have h3: "DeleteSecret (SecretsService \<lparr>SecretsService = sample_service\<rparr>) ''db''
      (bool_flag (no_flags\<lparr>bool_flag := (\<lambda>name. name = ''recover'')\<rparr>) ''recover'') = None"
    by (simp add: sample_service_def)
  have r: "calls (snd (the (Execute (sample_env sample_service) ''rm''
     (no_flags\<lparr>bool_flag := (\<lambda>name. name = ''recover'')\<rparr>) [''db''] empty_world))) =
     [Call_New, Call_DeleteSecret ''db'' True]"
    by (simp add: Execute_verbs execute_deleteSecret deleteSecret_RunE_def
        deleteSecret_opts_eq record_call_def sample_env_def empty_world_def)
  show ?thesis
    using h1 h2 r deleteSecret_success_silent [OF h1 h2 h3, of empty_world]
    by (auto simp add: sample_service_def empty_world_def)
qed

subsection \<open>C9: the header of the list\<close>

text \<open>
  Claim C9. For every list of secrets, the empty list included, the text that the list
  subcommand writes begins with one header line, the titles ID, NAME and DESCRIPTION
  joined by tabs, written before the rows of the secrets; a successful list over no
  secrets writes the header line and nothing else, and returns no error. The text goes
  to standard output through the tabwriter with the settings 20, 1, 3, space, 0.
\<close>

theorem printList_header:
  "printList e out secrets =
     out @ tabwriter e 20 1 3 CHR '' '' 0
       ((''ID'' @ [CHR 0x09] @ ''NAME'' @ [CHR 0x09] @ ''DESCRIPTION'' @ [CHR 0x0A]) @
        concat (map (\<lambda>s. ID s @ [CHR 0x09] @ Name s @ [CHR 0x09] @
                          Secret.Description s @ [CHR 0x0A]) secrets)) \<and>
   printList e out [] =
     out @ tabwriter e 20 1 3 CHR '' '' 0
       (''ID'' @ [CHR 0x09] @ ''NAME'' @ [CHR 0x09] @ ''DESCRIPTION'' @ [CHR 0x0A]) \<and>
   (New e = Inr c \<and> ListSecrets (SecretsService c) = Inr [] \<longrightarrow>
      observable (execute (listSecrets e) fs args w) =
        (Return None,
         stdout w @ tabwriter e 20 1 3 CHR '' '' 0
           (''ID'' @ [CHR 0x09] @ ''NAME'' @ [CHR 0x09] @ ''DESCRIPTION'' @ [CHR 0x0A])))"
  by (simp add: printList_text observable_def execute_listSecrets listSecrets_RunE_def
      record_call_def)

text \<open>An instance: \<open>secret list\<close> against a service that holds no secret.\<close>

theorem printList_header_witness:
  "New (sample_env (sample_service\<lparr>ListSecrets := Inr []\<rparr>)) =
     Inr \<lparr>SecretsService = sample_service\<lparr>ListSecrets := Inr []\<rparr>\<rparr> \<and>
   ListSecrets (sample_service\<lparr>ListSecrets := Inr []\<rparr>) = Inr [] \<and>
   observable (execute (listSecrets (sample_env (sample_service\<lparr>ListSecrets := Inr []\<rparr>)))
       no_flags [] empty_world) =
     (Return None, ''ID'' @ [CHR 0x09] @ ''NAME'' @ [CHR 0x09] @ ''DESCRIPTION'' @ [CHR 0x0A])"
  using printList_header [of "sample_env (sample_service\<lparr>ListSecrets := Inr []\<rparr>)" "''''" "[]"
      "\<lparr>SecretsService = sample_service\<lparr>ListSecrets := Inr []\<rparr>\<rparr>" no_flags "[]" empty_world]
  by (simp add: sample_env_def empty_world_def)

subsection \<open>C10: the handlers are deterministic\<close>

text \<open>
  Claim C10. Take two invocations of the same subcommand with the same parsed arguments
  and flag values, starting from the same text on standard output, in which client
  construction and the service call of the handler return the same results. Then both
  return the same error result and leave the same text on standard output. This holds
  for each of the four subcommands, and also where the number of arguments is rejected.
  The two clients may differ in everything that the handler does not call. The JSON
  serialisation and the tabwriter are code of the program and of its libraries, not
  results of the service, and are the same in both invocations.
\<close>

theorem handlers_deterministic:
  assumes "ToJSON e1 = ToJSON e2" and "tabwriter e1 = tabwriter e2"
    and "stdout w1 = stdout w2"
  shows
    "(same_results e1 e2
        (\<lambda>s. CreateSecret s
           (NewSecret name (Username (createSecret_opts fs)) (Password (createSecret_opts fs))
              (createSecretOptions.Description (createSecret_opts fs)))) \<longrightarrow>
      observable (execute (createSecret e1) fs [name] w1) =
      observable (execute (createSecret e2) fs [name] w2)) \<and>
     (same_results e1 e2 (\<lambda>s. InspectSecret s name) \<longrightarrow>
      observable (execute (inspectSecret e1) fs [name] w1) =
      observable (execute (inspectSecret e2) fs [name] w2)) \<and>
     (same_results e1 e2 ListSecrets \<longrightarrow>
      observable (execute (listSecrets e1) fs args w1) =
      observable (execute (listSecrets e2) fs args w2)) \<and>
     (same_results e1 e2 (\<lambda>s. DeleteSecret s name (recover (deleteSecret_opts fs))) \<longrightarrow>
      observable (execute (deleteSecret e1) fs [name] w1) =
      observable (execute (deleteSecret e2) fs [name] w2)) \<and>
     (length args \<noteq> 1 \<longrightarrow>
      observable (execute (createSecret e1) fs args w1) =
      observable (execute (createSecret e2) fs args w2) \<and>
      observable (execute (inspectSecret e1) fs args w1) =
      observable (execute (inspectSecret e2) fs args w2) \<and>
      observable (execute (deleteSecret e1) fs args w1) =
      observable (execute (deleteSecret e2) fs args w2))"
proof (intro conjI impI)
  assume "same_results e1 e2
        (\<lambda>s. CreateSecret s
           (NewSecret name (Username (createSecret_opts fs)) (Password (createSecret_opts fs))
              (createSecretOptions.Description (createSecret_opts fs))))"
  with assms show "observable (execute (createSecret e1) fs [name] w1) =
      observable (execute (createSecret e2) fs [name] w2)"
    by (auto simp add: same_results_def observable_def execute_createSecret
        createSecret_RunE_def record_call_def Println_def Let_def split: sum.splits)
next
  assume "same_results e1 e2 (\<lambda>s. InspectSecret s name)"
  with assms show "observable (execute (inspectSecret e1) fs [name] w1) =
      observable (execute (inspectSecret e2) fs [name] w2)"
    by (auto simp add: same_results_def observable_def execute_inspectSecret
        inspectSecret_RunE_def record_call_def Println_def Let_def split: sum.splits)
next
  assume "same_results e1 e2 ListSecrets"
  with assms show "observable (execute (listSecrets e1) fs args w1) =
      observable (execute (listSecrets e2) fs args w2)"
    by (auto simp add: same_results_def observable_def execute_listSecrets
        listSecrets_RunE_def record_call_def printList_text Let_def split: sum.splits)
next
  assume "same_results e1 e2 (\<lambda>s. DeleteSecret s name (recover (deleteSecret_opts fs)))"
  with assms show "observable (execute (deleteSecret e1) fs [name] w1) =
      observable (execute (deleteSecret e2) fs [name] w2)"
    by (auto simp add: same_results_def observable_def execute_deleteSecret
        deleteSecret_RunE_def record_call_def Let_def split: sum.splits)
next
  assume "length args \<noteq> 1"
  with assms show "observable (execute (createSecret e1) fs args w1) =
      observable (execute (createSecret e2) fs args w2)"
    by (simp add: observable_def execute_createSecret)
next
  assume "length args \<noteq> 1"
  with assms show "observable (execute (inspectSecret e1) fs args w1) =
      observable (execute (inspectSecret e2) fs args w2)"
    by (simp add: observable_def execute_inspectSecret)
next
  assume "length args \<noteq> 1"
  with assms show "observable (execute (deleteSecret e1) fs args w1) =
      observable (execute (deleteSecret e2) fs args w2)"
    by (simp add: observable_def execute_deleteSecret)
qed

text \<open>
  An instance: the sample service and the service that knows only the secret \<open>db\<close>
  differ on every other name, and the two states differ in their earlier calls; the
  four subcommands on \<open>db\<close> cannot tell them apart.
\<close>

theorem handlers_deterministic_witness:
  "ToJSON (sample_env sample_service) = ToJSON (sample_env single_service) \<and>
   tabwriter (sample_env sample_service) = tabwriter (sample_env single_service) \<and>
   stdout empty_world = stdout (empty_world\<lparr>calls := [Call_ListSecrets]\<rparr>) \<and>
   InspectSecret sample_service ''api'' \<noteq> InspectSecret single_service ''api'' \<and>
   same_results (sample_env sample_service) (sample_env single_service)
     (\<lambda>s. CreateSecret s (NewSecret ''db'' '''' '''' '''')) \<and>
   same_results (sample_env sample_service) (sample_env single_service)
     (\<lambda>s. InspectSecret s ''db'') \<and>
   same_results (sample_env sample_service) (sample_env single_service) ListSecrets \<and>
   same_results (sample_env sample_service) (sample_env single_service)
     (\<lambda>s. DeleteSecret s ''db'' False) \<and>
   length ([] :: string list) \<noteq> 1 \<and>
   observable (execute (createSecret (sample_env sample_service)) no_flags [''db''] empty_world) =
   observable (execute (createSecret (sample_env single_service)) no_flags [''db'']
     (empty_world\<lparr>calls := [Call_ListSecrets]\<rparr>)) \<and>
   observable (execute (inspectSecret (sample_env sample_service)) no_flags [''db''] empty_world) =
   observable (execute (inspectSecret (sample_env single_service)) no_flags [''db'']
     (empty_world\<lparr>calls := [Call_ListSecrets]\<rparr>)) \<and>
   observable (execute (listSecrets (sample_env sample_service)) no_flags [] empty_world) =
   observable (execute (listSecrets (sample_env single_service)) no_flags []
     (empty_world\<lparr>calls := [Call_ListSecrets]\<rparr>)) \<and>
   observable (execute (deleteSecret (sample_env sample_service)) no_flags [''db''] empty_world) =
   observable (execute (deleteSecret (sample_env single_service)) no_flags [''db'']
     (empty_world\<lparr>calls := [Call_ListSecrets]\<rparr>)) \<and>
   observable (execute (deleteSecret (sample_env sample_service)) no_flags [] empty_world) =
   observable (execute (deleteSecret (sample_env single_service)) no_flags []
     (empty_world\<lparr>calls := [Call_ListSecrets]\<rparr>))"
proof -
  have h1: "ToJSON (sample_env sample_service) = ToJSON (sample_env single_service)"
    by (simp add: sample_env_def)
  have h2: "tabwriter (sample_env sample_service) = tabwriter (sample_env single_service)"
    by (simp add: sample_env_def)
  have h3: "stdout empty_world = stdout (empty_world\<lparr>calls := [Call_ListSecrets]\<rparr>)"
    by simp
  have d: "InspectSecret sample_service ''api'' \<noteq> InspectSecret single_service ''api''"
    by (simp add: sample_service_def single_service_def)
  have s: "same_results (sample_env sample_service) (sample_env single_service)
       (\<lambda>s. CreateSecret s (NewSecret ''db'' '''' '''' ''''))"
    "same_results (sample_env sample_service) (sample_env single_service)
       (\<lambda>s. InspectSecret s ''db'')"
    "same_results (sample_env sample_service) (sample_env single_service) ListSecrets"
    "same_results (sample_env sample_service) (sample_env single_service)
       (\<lambda>s. DeleteSecret s ''db'' False)"
    by (simp_all add: same_results_def sample_env_def sample_service_def single_service_def)
  show ?thesis
    using h1 h2 h3 d s
      handlers_deterministic [OF h1 h2 h3, of "''db''" no_flags "[]"]
    by (simp add: createSecret_opts_eq deleteSecret_opts_eq no_flags_def)
qed

end
